theory Spec2Isabelle
  imports Complex_Main "HOL-Library.Sublist"
begin

section \<open>The translation memory database of \<^verbatim>\<open>translate/storage/tmdb.py\<close>\<close>

text \<open>
  The module keeps source strings and their translations in two SQLite tables and answers
  fuzzy-match queries. The embedding below follows the Python text function by function.
  A string is the list of its characters, so that \<open>length\<close> is Python's \<^verbatim>\<open>len\<close>.
  A Python value that may be \<^verbatim>\<open>None\<close> is an \<open>option\<close>; SQL \<^verbatim>\<open>NULL\<close> is
  \<open>None\<close> as well, since the sqlite3 binding maps one to the other. Exceptions are values
  of the type \<open>error\<close>; an operation on the database returns its outcome together with the
  state it leaves behind, because a raised exception does not undo what was executed before it.
\<close>

subsection \<open>Values, errors, rows\<close>

type_synonym pyval = "string option"

datatype error =
    LanguageError string
  | IntegrityError
  | KeyError string
  | TypeError
  | ZeroDivisionError

text \<open>
  The two tables created by \<^verbatim>\<open>init_database\<close>. Columns declared \<^verbatim>\<open>NOT NULL\<close> carry
  plain values; \<^verbatim>\<open>sources.context\<close> and \<^verbatim>\<open>targets.time\<close> default to \<^verbatim>\<open>NULL\<close>.
  \<open>sources_seq\<close> and \<open>targets_seq\<close> are the \<^verbatim>\<open>AUTOINCREMENT\<close> counters that SQLite
  keeps in \<^verbatim>\<open>sqlite_sequence\<close>.
\<close>

record source_row =
  s_sid :: nat
  s_text :: string
  s_context :: "string option"
  s_lang :: string
  s_length :: int

record target_row =
  t_tid :: nat
  t_sid :: nat
  t_text :: string
  t_lang :: string
  t_time :: "int option"

record database =
  sources :: "source_row list"
  targets :: "target_row list"
  sources_seq :: nat
  targets_seq :: nat

text \<open>
  What the module takes from outside this file: \<^verbatim>\<open>data.normalize_code\<close> of
  \<^verbatim>\<open>translate.lang\<close>, the character class \<^verbatim>\<open>\w\<close> of the regular expression
  \<^verbatim>\<open>STRIP_REGEXP\<close>, the \<^verbatim>\<open>MATCH\<close> operator of SQLite's fts3 (query string, indexed
  text) and the successive readings of \<^verbatim>\<open>time.time()\<close>, truncated by \<^verbatim>\<open>int\<close>.
  They are parameters of the model.
\<close>

record externals =
  normalize_code :: "string \<Rightarrow> string"
  word_char :: "char \<Rightarrow> bool"
  fts_match :: "string \<Rightarrow> string \<Rightarrow> bool"
  time_time :: "nat \<Rightarrow> int"

text \<open>
  The attributes of a \<^verbatim>\<open>TMDB\<close> object, the connection of the calling thread and the
  number of clock readings made so far. The connection is the pair of the last committed
  database and the database as the open transaction sees it; every statement of the cursor
  reads and writes \<open>pending\<close>.
\<close>

record tmdb =
  max_candidates :: int
  min_similarity :: rat
  max_length :: rat
  fulltext :: bool
  comparer :: "string \<Rightarrow> string \<Rightarrow> rat \<Rightarrow> rat"
  committed :: database
  pending :: database
  ticks :: nat

definition commit_tx :: "tmdb \<Rightarrow> tmdb" where
  "commit_tx tm = tm\<lparr>committed := pending tm\<rparr>"

definition rollback :: "tmdb \<Rightarrow> tmdb" where
  "rollback tm = tm\<lparr>pending := committed tm\<rparr>"

subsection \<open>The SQL statements\<close>

text \<open>
  \<^verbatim>\<open>INSERT INTO sources (text, context, lang, length) VALUES (?, ?, ?, ?)\<close>.
  A \<^verbatim>\<open>NULL\<close> text violates \<^verbatim>\<open>NOT NULL\<close>. The unique index
  \<^verbatim>\<open>sources_uniq_idx (text, context, lang)\<close> rejects a row equal to a stored one on
  the three columns, where SQLite counts every \<^verbatim>\<open>NULL\<close> as different from every other
  value, \<^verbatim>\<open>NULL\<close> included: a row with a \<^verbatim>\<open>NULL\<close> context never conflicts.
  The result is \<^verbatim>\<open>cursor.lastrowid\<close> and the new database.
\<close>

definition sources_conflict :: "database \<Rightarrow> string \<Rightarrow> string option \<Rightarrow> string \<Rightarrow> bool" where
  "sources_conflict db text context lang =
     (\<exists>r \<in> set (sources db).
        s_text r = text \<and> context \<noteq> None \<and> s_context r = context \<and> s_lang r = lang)"

definition insert_source ::
  "database \<Rightarrow> pyval \<Rightarrow> string option \<Rightarrow> string \<Rightarrow> int \<Rightarrow> error + nat \<times> database" where
  "insert_source db text context lang len =
     (case text of
        None \<Rightarrow> Inl IntegrityError
      | Some txt \<Rightarrow>
          if sources_conflict db txt context lang then Inl IntegrityError
          else
            let new = Suc (sources_seq db) in
            Inr (new,
              db\<lparr>sources := sources db @
                     [\<lparr>s_sid = new, s_text = txt, s_context = context, s_lang = lang,
                       s_length = len\<rparr>],
                 sources_seq := new\<rparr>))"

text \<open>
  \<^verbatim>\<open>SELECT sid FROM sources WHERE text=? AND context=? and lang=?\<close> followed by
  \<^verbatim>\<open>fetchone()\<close>. A comparison with \<^verbatim>\<open>NULL\<close> is never true.
\<close>

definition select_sid :: "database \<Rightarrow> pyval \<Rightarrow> string option \<Rightarrow> string \<Rightarrow> nat list" where
  "select_sid db text context lang =
     map s_sid
       (filter (\<lambda>r. text = Some (s_text r) \<and> context \<noteq> None \<and> s_context r = context \<and>
                     s_lang r = lang)
          (sources db))"

definition fetchone :: "'a list \<Rightarrow> 'a option" where
  "fetchone rows = (case rows of [] \<Rightarrow> None | r # _ \<Rightarrow> Some r)"

text \<open>
  \<^verbatim>\<open>INSERT INTO targets (sid, text, lang, time) VALUES (?, ?, ?, ?)\<close> under the unique
  index \<^verbatim>\<open>targets_uniq_idx (sid, text, lang)\<close>; the three columns are \<^verbatim>\<open>NOT NULL\<close>.
  SQLite does not enforce the foreign key unless asked to, and the module never asks.
\<close>

definition targets_conflict :: "database \<Rightarrow> nat \<Rightarrow> string \<Rightarrow> string \<Rightarrow> bool" where
  "targets_conflict db sid text lang =
     (\<exists>r \<in> set (targets db). t_sid r = sid \<and> t_text r = text \<and> t_lang r = lang)"

definition insert_target ::
  "database \<Rightarrow> nat \<Rightarrow> pyval \<Rightarrow> string \<Rightarrow> int \<Rightarrow> error + database" where
  "insert_target db sid text lang now =
     (case text of
        None \<Rightarrow> Inl IntegrityError
      | Some txt \<Rightarrow>
          if targets_conflict db sid txt lang then Inl IntegrityError
          else
            let new = Suc (targets_seq db) in
            Inr (db\<lparr>targets := targets db @
                        [\<lparr>t_tid = new, t_sid = sid, t_text = txt, t_lang = lang,
                          t_time = Some now\<rparr>],
                    targets_seq := new\<rparr>))"

subsection \<open>Length bounds\<close>

text \<open>
  \<^verbatim>\<open>math.ceil(max(length * (min_similarity / 100.0), 2))\<close> and
  \<^verbatim>\<open>math.floor(min(length / (min_similarity / 100.0), max_length))\<close>, over the rationals.
  The division by \<^verbatim>\<open>min_similarity / 100.0\<close> raises when that is zero.
\<close>

definition min_levenshtein_length :: "int \<Rightarrow> rat \<Rightarrow> int" where
  "min_levenshtein_length len min_sim = \<lceil>max (of_int len * (min_sim / 100)) 2\<rceil>"

definition max_levenshtein_length :: "int \<Rightarrow> rat \<Rightarrow> rat \<Rightarrow> error + int" where
  "max_levenshtein_length len min_sim max_len =
     (if min_sim / 100 = 0 then Inl ZeroDivisionError
      else Inr \<lfloor>min (of_int len / (min_sim / 100)) max_len\<rfloor>)"

subsection \<open>Inserting\<close>

text \<open>
  The inner \<^verbatim>\<open>try\<close> of \<^verbatim>\<open>add_dict\<close>: insert the source row and take
  \<^verbatim>\<open>cursor.lastrowid\<close>, or, on \<^verbatim>\<open>IntegrityError\<close>, look the row up. The argument
  tuple is evaluated left to right before the statement runs: a missing key raises
  \<^verbatim>\<open>KeyError\<close>, and \<^verbatim>\<open>len(None)\<close> raises \<^verbatim>\<open>TypeError\<close>. Unpacking
  \<^verbatim>\<open>(sid,) = None\<close> raises \<^verbatim>\<open>TypeError\<close> when the lookup finds nothing.
\<close>

definition source_sid ::
  "database \<Rightarrow> (string \<rightharpoonup> pyval) \<Rightarrow> string \<Rightarrow> (error + nat) \<times> database" where
  "source_sid db unit source_lang =
     (case unit ''source'' of
        None \<Rightarrow> (Inl (KeyError ''source''), db)
      | Some text \<Rightarrow>
          (case unit ''context'' of
             None \<Rightarrow> (Inl (KeyError ''context''), db)
           | Some context \<Rightarrow>
               (case text of
                  None \<Rightarrow> (Inl TypeError, db)
                | Some txt \<Rightarrow>
                    (case insert_source db text context source_lang (int (length txt)) of
                       Inr (sid, db') \<Rightarrow> (Inr sid, db')
                     | Inl e \<Rightarrow>
                         if e = IntegrityError then
                           (case fetchone (select_sid db text context source_lang) of
                              None \<Rightarrow> (Inl TypeError, db)
                            | Some sid \<Rightarrow> (Inr sid, db))
                         else (Inl e, db)))))"

text \<open>
  The block under \<^verbatim>\<open>contextlib.suppress(dbapi2.IntegrityError)\<close>: the insert into
  \<^verbatim>\<open>targets\<close>, whose \<^verbatim>\<open>IntegrityError\<close> is dropped.
\<close>

definition add_target :: "database \<Rightarrow> nat \<Rightarrow> pyval \<Rightarrow> string \<Rightarrow> int \<Rightarrow> error + database" where
  "add_target db sid text lang now =
     (case insert_target db sid text lang now of
        Inr db' \<Rightarrow> Inr db'
      | Inl e \<Rightarrow> if e = IntegrityError then Inr db else Inl e)"

text \<open>The body of the outer \<^verbatim>\<open>try\<close> of \<^verbatim>\<open>add_dict\<close>, up to the commit.\<close>

definition add_dict_try ::
  "externals \<Rightarrow> tmdb \<Rightarrow> (string \<rightharpoonup> pyval) \<Rightarrow> string \<Rightarrow> string \<Rightarrow> (error + unit) \<times> tmdb" where
  "add_dict_try X tm unit source_lang target_lang =
     (case source_sid (pending tm) unit source_lang of
        (Inl e, db) \<Rightarrow> (Inl e, tm\<lparr>pending := db\<rparr>)
      | (Inr sid, db) \<Rightarrow>
          (case unit ''target'' of
             None \<Rightarrow> (Inl (KeyError ''target''), tm\<lparr>pending := db\<rparr>)
           | Some target \<Rightarrow>
               (case add_target db sid target target_lang (time_time X (ticks tm)) of
                  Inl e \<Rightarrow> (Inl e, tm\<lparr>pending := db, ticks := Suc (ticks tm)\<rparr>)
                | Inr db' \<Rightarrow> (Inr (), tm\<lparr>pending := db', ticks := Suc (ticks tm)\<rparr>))))"

definition add_dict ::
  "externals \<Rightarrow> tmdb \<Rightarrow> (string \<rightharpoonup> pyval) \<Rightarrow> string \<Rightarrow> string \<Rightarrow> bool \<Rightarrow>
     (error + unit) \<times> tmdb" where
  "add_dict X tm unit source_lang target_lang commit =
     (let source_lang = normalize_code X source_lang;
          target_lang = normalize_code X target_lang
      in case add_dict_try X tm unit source_lang target_lang of
           (Inr u, tm') \<Rightarrow> (Inr u, if commit then commit_tx tm' else tm')
         | (Inl e, tm') \<Rightarrow> (Inl e, if commit then rollback tm' else tm'))"

text \<open>
  The translation-unit abstraction that \<^verbatim>\<open>add_unit\<close> and \<^verbatim>\<open>add_store\<close> consume:
  two attributes and the values of five methods.
\<close>

record translation_unit =
  source :: string
  target :: string
  getcontext :: "string option"
  getsourcelanguage :: "string option"
  gettargetlanguage :: "string option"
  istranslatable :: bool
  istranslated :: bool

text \<open>Python's truth value of a string or \<^verbatim>\<open>None\<close>.\<close>

definition truthy :: "string option \<Rightarrow> bool" where
  "truthy v = (case v of None \<Rightarrow> False | Some s \<Rightarrow> s \<noteq> [])"

definition add_unit ::
  "externals \<Rightarrow> tmdb \<Rightarrow> translation_unit \<Rightarrow> string option \<Rightarrow> string option \<Rightarrow> bool \<Rightarrow>
     (error + unit) \<times> tmdb" where
  "add_unit X tm unit source_lang target_lang commit =
     (let source_lang =
            (if truthy (getsourcelanguage unit) then getsourcelanguage unit else source_lang);
          target_lang =
            (if truthy (gettargetlanguage unit) then gettargetlanguage unit else target_lang)
      in case source_lang of
           None \<Rightarrow> (Inl (LanguageError ''undefined source language''), tm)
         | Some slang \<Rightarrow>
             if slang = [] then (Inl (LanguageError ''undefined source language''), tm)
             else
               (case target_lang of
                  None \<Rightarrow> (Inl (LanguageError ''undefined target language''), tm)
                | Some tlang \<Rightarrow>
                    if tlang = [] then (Inl (LanguageError ''undefined target language''), tm)
                    else
                      add_dict X tm
                        [''source'' \<mapsto> Some (source unit),
                         ''target'' \<mapsto> Some (target unit),
                         ''context'' \<mapsto> getcontext unit]
                        slang tlang commit))"

text \<open>The loops of \<^verbatim>\<open>add_store\<close> and \<^verbatim>\<open>add_list\<close>; an exception leaves the loop.\<close>

fun add_store_loop ::
  "externals \<Rightarrow> tmdb \<Rightarrow> translation_unit list \<Rightarrow> string option \<Rightarrow> string option \<Rightarrow> nat \<Rightarrow>
     (error + nat) \<times> tmdb" where
  "add_store_loop X tm [] source_lang target_lang count = (Inr count, tm)"
| "add_store_loop X tm (unit # units) source_lang target_lang count =
     (if istranslatable unit \<and> istranslated unit then
        (case add_unit X tm unit source_lang target_lang False of
           (Inl e, tm') \<Rightarrow> (Inl e, tm')
         | (Inr _, tm') \<Rightarrow> add_store_loop X tm' units source_lang target_lang (count + 1))
      else add_store_loop X tm units source_lang target_lang count)"

definition add_store ::
  "externals \<Rightarrow> tmdb \<Rightarrow> translation_unit list \<Rightarrow> string option \<Rightarrow> string option \<Rightarrow> bool \<Rightarrow>
     (error + nat) \<times> tmdb" where
  "add_store X tm store source_lang target_lang commit =
     (case add_store_loop X tm store source_lang target_lang 0 of
        (Inl e, tm') \<Rightarrow> (Inl e, tm')
      | (Inr count, tm') \<Rightarrow> (Inr count, if commit then commit_tx tm' else tm'))"

fun add_list_loop ::
  "externals \<Rightarrow> tmdb \<Rightarrow> (string \<rightharpoonup> pyval) list \<Rightarrow> string \<Rightarrow> string \<Rightarrow> nat \<Rightarrow>
     (error + nat) \<times> tmdb" where
  "add_list_loop X tm [] source_lang target_lang count = (Inr count, tm)"
| "add_list_loop X tm (unit # units) source_lang target_lang count =
     (case add_dict X tm unit source_lang target_lang False of
        (Inl e, tm') \<Rightarrow> (Inl e, tm')
      | (Inr _, tm') \<Rightarrow> add_list_loop X tm' units source_lang target_lang (count + 1))"

definition add_list ::
  "externals \<Rightarrow> tmdb \<Rightarrow> (string \<rightharpoonup> pyval) list \<Rightarrow> string \<Rightarrow> string \<Rightarrow> bool \<Rightarrow>
     (error + nat) \<times> tmdb" where
  "add_list X tm units source_lang target_lang commit =
     (case add_list_loop X tm units source_lang target_lang 0 of
        (Inl e, tm') \<Rightarrow> (Inl e, tm')
      | (Inr count, tm') \<Rightarrow> (Inr count, if commit then commit_tx tm' else tm'))"

text \<open>
  What "exactly the units that pass both predicates are inserted" means, written without
  the test: \<^verbatim>\<open>add_unit\<close> with \<^verbatim>\<open>commit=False\<close> on every unit of a list, in order,
  counting them.
\<close>

fun add_units ::
  "externals \<Rightarrow> tmdb \<Rightarrow> translation_unit list \<Rightarrow> string option \<Rightarrow> string option \<Rightarrow> nat \<Rightarrow>
     (error + nat) \<times> tmdb" where
  "add_units X tm [] source_lang target_lang count = (Inr count, tm)"
| "add_units X tm (unit # units) source_lang target_lang count =
     (case add_unit X tm unit source_lang target_lang False of
        (Inl e, tm') \<Rightarrow> (Inl e, tm')
      | (Inr _, tm') \<Rightarrow> add_units X tm' units source_lang target_lang (count + 1))"

subsection \<open>Querying\<close>

text \<open>
  A language argument of \<^verbatim>\<open>translate_unit\<close> is a string or a list of strings
  (\<^verbatim>\<open>isinstance(source_langs, list)\<close>). A list is normalised element by element and
  then joined with commas into one string; a string is normalised.
\<close>

datatype langs = Lang string | Langs "string list"

fun join :: "string \<Rightarrow> string list \<Rightarrow> string" where
  "join sep [] = []"
| "join sep [w] = w"
| "join sep (w # v # ws) = w @ sep @ join sep (v # ws)"

definition normalize_langs :: "externals \<Rightarrow> langs \<Rightarrow> string" where
  "normalize_langs X ls =
     (case ls of
        Langs codes \<Rightarrow> join '','' (map (normalize_code X) codes)
      | Lang code \<Rightarrow> normalize_code X code)"

text \<open>
  \<^verbatim>\<open>STRIP_REGEXP.sub(" ", unit_source).split()\<close>: every character outside \<^verbatim>\<open>\w\<close>
  becomes a space, and the string is cut at runs of spaces. No whitespace character is in
  \<^verbatim>\<open>\w\<close>, so after the substitution the space is the only separator left.
\<close>

definition strip :: "externals \<Rightarrow> string \<Rightarrow> string" where
  "strip X text = map (\<lambda>c. if word_char X c then c else CHR '' '') text"

function py_split :: "string \<Rightarrow> string list" where
  "py_split [] = []"
| "py_split (c # cs) =
     (if c = CHR '' '' then py_split cs
      else (c # takeWhile (\<lambda>d. d \<noteq> CHR '' '') cs) #
           py_split (dropWhile (\<lambda>d. d \<noteq> CHR '' '') cs))"
  by pat_completeness auto
termination
  by (relation "measure length") (auto simp: length_dropWhile_le less_Suc_eq_le)

text \<open>
  The two \<^verbatim>\<open>SELECT\<close> statements. Each \<^verbatim>\<open>IN (?)\<close> has a single bound parameter, the
  joined string: it holds exactly when the column equals that string. \<open>search\<close> is the
  fts3 query of the full-text variant, absent in the other; the triggers created by
  \<^verbatim>\<open>init_fulltext\<close> keep one index row per source row with the same text, so the join
  with \<^verbatim>\<open>fulltext\<close> filters the source rows by \<^verbatim>\<open>MATCH\<close>. SQL fixes no order of the
  rows; they are listed source by source, in table order.
\<close>

type_synonym row = "string \<times> string \<times> string option \<times> string \<times> string"

definition candidate_rows ::
  "externals \<Rightarrow> database \<Rightarrow> string \<Rightarrow> string \<Rightarrow> int \<Rightarrow> int \<Rightarrow> string option \<Rightarrow> row list" where
  "candidate_rows X db source_langs target_langs minlen maxlen search =
     concat
       (map (\<lambda>s. map (\<lambda>t. (s_text s, t_text t, s_context s, s_lang s, t_lang t))
                   (filter (\<lambda>t. s_sid s = t_sid t \<and> t_lang t = target_langs) (targets db)))
          (filter (\<lambda>s. s_lang s = source_langs \<and> minlen \<le> s_length s \<and> s_length s \<le> maxlen \<and>
                        (case search of None \<Rightarrow> True | Some q \<Rightarrow> fts_match X q (s_text s)))
             (sources db)))"

text \<open>The dictionaries that \<^verbatim>\<open>translate_unit\<close> returns.\<close>

record match_result =
  m_source :: string
  m_target :: string
  m_context :: "string option"
  quality :: rat

text \<open>The loop over the cursor: score each row, keep it when the score reaches the threshold.\<close>

fun results_loop :: "tmdb \<Rightarrow> string \<Rightarrow> row list \<Rightarrow> match_result list" where
  "results_loop tm unit_source [] = []"
| "results_loop tm unit_source (row # rows) =
     (let q = comparer tm unit_source (fst row) (min_similarity tm) in
      if q \<ge> min_similarity tm then
        \<lparr>m_source = fst row, m_target = fst (snd row), m_context = fst (snd (snd row)),
         quality = q\<rparr> # results_loop tm unit_source rows
      else results_loop tm unit_source rows)"

text \<open>
  \<^verbatim>\<open>list.sort(key=..., reverse=True)\<close>: CPython reverses the list, sorts it stably in
  ascending order of the key and reverses it again, which keeps equal keys in their
  original order. \<^verbatim>\<open>results[:n]\<close> counts a negative \<open>n\<close> from the end.
\<close>

definition sort_reverse :: "('a \<Rightarrow> 'k::linorder) \<Rightarrow> 'a list \<Rightarrow> 'a list" where
  "sort_reverse key xs = rev (sort_key key (rev xs))"

definition slice_upto :: "int \<Rightarrow> 'a list \<Rightarrow> 'a list" where
  "slice_upto n xs = (if 0 \<le> n then take (nat n) xs else take (length xs - nat (- n)) xs)"

text \<open>
  \<^verbatim>\<open>translate_unit\<close> up to \<^verbatim>\<open>cursor.execute\<close>: the rows that the cursor will yield.
  The statement runs on the connection of the thread, inside its open transaction.
\<close>

definition execute_query ::
  "externals \<Rightarrow> tmdb \<Rightarrow> string \<Rightarrow> langs \<Rightarrow> langs \<Rightarrow> error + row list" where
  "execute_query X tm unit_source source_langs target_langs =
     (let source_langs = normalize_langs X source_langs;
          target_langs = normalize_langs X target_langs;
          minlen = min_levenshtein_length (int (length unit_source)) (min_similarity tm)
      in case max_levenshtein_length (int (length unit_source)) (min_similarity tm)
                (max_length tm) of
           Inl e \<Rightarrow> Inl e
         | Inr maxlen \<Rightarrow>
             let unit_words = filter (\<lambda>word. length word > 2) (py_split (strip X unit_source))
             in if fulltext tm \<and> length unit_words > 3 then
                  Inr (candidate_rows X (pending tm) source_langs target_langs minlen maxlen
                         (Some (join '' OR '' unit_words)))
                else
                  Inr (candidate_rows X (pending tm) source_langs target_langs minlen maxlen
                         None))"

definition translate_unit ::
  "externals \<Rightarrow> tmdb \<Rightarrow> string \<Rightarrow> langs \<Rightarrow> langs \<Rightarrow> error + match_result list" where
  "translate_unit X tm unit_source source_langs target_langs =
     (case execute_query X tm unit_source source_langs target_langs of
        Inl e \<Rightarrow> Inl e
      | Inr rows \<Rightarrow>
          let results = results_loop tm unit_source rows
          in Inr (slice_upto (max_candidates tm) (sort_reverse quality results)))"

subsection \<open>A concrete store for the examples\<close>

text \<open>
  Modelled from the spec: \<^verbatim>\<open>translate.lang.data.normalize_code\<close> is not among the
  sources at hand. The specification calls it a case and region canonicalisation of a
  language identifier: upper-case letters become lower-case and the underscore that
  separates the region becomes a hyphen. It instantiates the parameter in the examples only.
\<close>

definition canonical_char :: "char \<Rightarrow> char" where
  "canonical_char c =
     (case map_of (zip ''ABCDEFGHIJKLMNOPQRSTUVWXYZ_'' ''abcdefghijklmnopqrstuvwxyz-'') c of
        None \<Rightarrow> c
      | Some d \<Rightarrow> d)"

definition example_externals :: externals where
  "example_externals =
     \<lparr>normalize_code = map canonical_char,
      word_char = (\<lambda>c. c \<in> set ''abcdefghijklmnopqrstuvwxyzABCDEFGHIJKLMNOPQRSTUVWXYZ0123456789_''),
      fts_match = (\<lambda>q text. True),
      time_time = (\<lambda>n. 1700000000 + int n)\<rparr>"

text \<open>
  A \<^verbatim>\<open>TMDB\<close> as the constructor leaves it on a new file, with the default options and
  without fts3. The comparer of the examples scores equal strings 100 and all others 0.
\<close>

definition empty_database :: database where
  "empty_database = \<lparr>sources = [], targets = [], sources_seq = 0, targets_seq = 0\<rparr>"

definition example_tmdb :: tmdb where
  "example_tmdb =
     \<lparr>max_candidates = 3, min_similarity = 75, max_length = 1000, fulltext = False,
      comparer = (\<lambda>a b stop. if a = b then 100 else 0),
      committed = empty_database, pending = empty_database, ticks = 0\<rparr>"

text \<open>
  Units as dictionaries, and the stores that the examples start from: \<open>hello_tmdb\<close>
  holds one pair, inserted by \<^verbatim>\<open>add_dict\<close> with English as source language and
  French as target language; \<open>blank_tmdb\<close> holds the same pair inserted with empty
  language codes; \<open>crowded_tmdb\<close> holds four translations of one source string.
\<close>

definition hello_unit :: "string \<rightharpoonup> pyval" where
  "hello_unit =
     [''source'' \<mapsto> Some ''Hello world'', ''context'' \<mapsto> Some [],
      ''target'' \<mapsto> Some ''Bonjour monde'']"

definition null_context_unit :: "string \<rightharpoonup> pyval" where
  "null_context_unit =
     [''source'' \<mapsto> Some ''Hello world'', ''context'' \<mapsto> None,
      ''target'' \<mapsto> Some ''Bonjour monde'']"

definition no_target_unit :: "string \<rightharpoonup> pyval" where
  "no_target_unit = [''source'' \<mapsto> Some ''Goodbye'', ''context'' \<mapsto> Some []]"

definition goodbye_unit :: "string \<rightharpoonup> pyval" where
  "goodbye_unit =
     [''source'' \<mapsto> Some ''Goodbye'', ''context'' \<mapsto> Some [],
      ''target'' \<mapsto> Some ''Au revoir'']"

definition hello_tmdb :: tmdb where
  "hello_tmdb = snd (add_dict example_externals example_tmdb hello_unit ''en'' ''fr'' True)"


definition crowded_tmdb :: tmdb where
  "crowded_tmdb =
     snd (add_list example_externals example_tmdb
            (map (\<lambda>t. [''source'' \<mapsto> Some ''Hello world'', ''context'' \<mapsto> Some [],
                        ''target'' \<mapsto> Some t])
               [''Bonjour monde'', ''Salut monde'', ''Bonjour le monde'', ''Salut le monde''])
            ''en'' ''fr'' True)"

text \<open>Translation units for the examples of \<^verbatim>\<open>add_unit\<close> and \<^verbatim>\<open>add_store\<close>.\<close>

definition plain_unit :: translation_unit where
  "plain_unit =
     \<lparr>source = ''Hello world'', target = ''Bonjour monde'', getcontext = Some [],
      getsourcelanguage = None, gettargetlanguage = None,
      istranslatable = True, istranslated = True\<rparr>"

definition french_unit :: translation_unit where
  "french_unit = plain_unit\<lparr>gettargetlanguage := Some ''fr''\<rparr>"

definition untranslated_unit :: translation_unit where
  "untranslated_unit =
     \<lparr>source = ''Goodbye'', target = [], getcontext = Some [],
      getsourcelanguage = None, gettargetlanguage = None,
      istranslatable = True, istranslated = False\<rparr>"

definition header_unit :: translation_unit where
  "header_unit =
     \<lparr>source = [], target = ''Project-Id-Version: 1'', getcontext = Some [],
      getsourcelanguage = None, gettargetlanguage = None,
      istranslatable = False, istranslated = True\<rparr>"

lemmas model_defs =
  commit_tx_def rollback_def sources_conflict_def insert_source_def select_sid_def
  fetchone_def targets_conflict_def insert_target_def source_sid_def add_target_def
  add_dict_try_def add_dict_def truthy_def add_unit_def add_store_def add_list_def
  normalize_langs_def strip_def candidate_rows_def sort_reverse_def slice_upto_def
  execute_query_def translate_unit_def min_levenshtein_length_def
  max_levenshtein_length_def

lemmas example_defs =
  canonical_char_def example_externals_def empty_database_def example_tmdb_def
  hello_unit_def null_context_unit_def no_target_unit_def goodbye_unit_def
  plain_unit_def french_unit_def untranslated_unit_def header_unit_def

section \<open>Length bounds: properties\<close>







section \<open>The example stores, evaluated\<close>

lemma hello_tmdb_eval:
  "hello_tmdb =
     example_tmdb
       \<lparr>committed :=
          \<lparr>sources = [\<lparr>s_sid = 1, s_text = ''Hello world'', s_context = Some [],
                        s_lang = ''en'', s_length = 11\<rparr>],
           targets = [\<lparr>t_tid = 1, t_sid = 1, t_text = ''Bonjour monde'', t_lang = ''fr'',
                        t_time = Some 1700000000\<rparr>],
           sources_seq = 1, targets_seq = 1\<rparr>,
        pending :=
          \<lparr>sources = [\<lparr>s_sid = 1, s_text = ''Hello world'', s_context = Some [],
                        s_lang = ''en'', s_length = 11\<rparr>],
           targets = [\<lparr>t_tid = 1, t_sid = 1, t_text = ''Bonjour monde'', t_lang = ''fr'',
                        t_time = Some 1700000000\<rparr>],
           sources_seq = 1, targets_seq = 1\<rparr>,
        ticks := 1\<rparr>"
  by (simp add: hello_tmdb_def model_defs example_defs Let_def)


lemma crowded_tmdb_eval:
  "pending crowded_tmdb =
     \<lparr>sources = [\<lparr>s_sid = 1, s_text = ''Hello world'', s_context = Some [],
                   s_lang = ''en'', s_length = 11\<rparr>],
      targets =
        [\<lparr>t_tid = 1, t_sid = 1, t_text = ''Bonjour monde'', t_lang = ''fr'',
           t_time = Some 1700000000\<rparr>,
         \<lparr>t_tid = 2, t_sid = 1, t_text = ''Salut monde'', t_lang = ''fr'',
           t_time = Some 1700000001\<rparr>,
         \<lparr>t_tid = 3, t_sid = 1, t_text = ''Bonjour le monde'', t_lang = ''fr'',
           t_time = Some 1700000002\<rparr>,
         \<lparr>t_tid = 4, t_sid = 1, t_text = ''Salut le monde'', t_lang = ''fr'',
           t_time = Some 1700000003\<rparr>],
      sources_seq = 1, targets_seq = 4\<rparr> \<and>
   max_candidates crowded_tmdb = 3 \<and> min_similarity crowded_tmdb = 75 \<and>
   max_length crowded_tmdb = 1000 \<and> \<not> fulltext crowded_tmdb \<and>
   comparer crowded_tmdb = (\<lambda>a b stop. if a = b then 100 else 0)"
  by (simp add: crowded_tmdb_def model_defs example_defs Let_def)

section \<open>Ranking: properties\<close>

lemma execute_query_cases:
  "(min_similarity tm = 0 \<and> execute_query X tm unit_source source_langs target_langs = Inl ZeroDivisionError) \<or>
   (min_similarity tm \<noteq> 0 \<and> (\<exists>rows. execute_query X tm unit_source source_langs target_langs = Inr rows))"
  by (simp add: execute_query_def max_levenshtein_length_def Let_def)

lemma results_loop_threshold:
  "m \<in> set (results_loop tm src rows) \<Longrightarrow> min_similarity tm \<le> quality m"
  by (induction rows) (auto simp: Let_def split: if_splits)

lemma set_sort_reverse: "set (sort_reverse key xs) = set xs"
  by (simp add: sort_reverse_def)

lemma set_slice_upto: "set (slice_upto n xs) \<subseteq> set xs"
  by (auto simp: slice_upto_def dest: in_set_takeD)

lemma prefix_slice_upto: "prefix (slice_upto n xs) xs"
  by (simp add: slice_upto_def take_is_prefix)

lemma length_slice_upto: "0 \<le> n \<Longrightarrow> int (length (slice_upto n xs)) \<le> n"
  by (simp add: slice_upto_def)

lemma sort_reverse_sorted: "sorted_wrt (\<lambda>a b. key b \<le> key a) (sort_reverse key xs)"
proof -
  have "sorted_wrt (\<lambda>a b. key a \<le> key b) (sort_key key (rev xs))"
    using sorted_sort_key [of key "rev xs"] by (simp add: sorted_map)
  then show ?thesis
    by (simp add: sort_reverse_def sorted_wrt_rev)
qed

lemma sort_reverse_stable:
  "filter (\<lambda>x. key x = k) (sort_reverse key xs) = filter (\<lambda>x. key x = k) xs"
proof -
  have "filter (\<lambda>x. key x = k) (sort_reverse key xs) =
        rev (filter (\<lambda>x. key x = k) (sort_key key (rev xs)))"
    by (simp add: sort_reverse_def rev_filter)
  also have "\<dots> = rev (filter (\<lambda>x. key x = k) (rev xs))"
    by (simp only: sort_key_stable)
  also have "\<dots> = filter (\<lambda>x. key x = k) xs"
    by (simp add: rev_filter)
  finally show ?thesis .
qed

lemma sorted_wrt_slice_upto: "sorted_wrt R xs \<Longrightarrow> sorted_wrt R (slice_upto n xs)"
  by (simp add: slice_upto_def sorted_wrt_take)


text \<open>
  C7. Whatever the store and the query, \<^verbatim>\<open>translate_unit\<close> either returns a list in
  which every match has a quality of at least \<open>min_similarity\<close>, or raises
  \<^verbatim>\<open>ZeroDivisionError\<close>, which happens exactly when \<open>min_similarity\<close> is zero: no result
  below the threshold is returned.
\<close>

theorem translate_unit_threshold:
  "case translate_unit X tm unit_source source_langs target_langs of
     Inl e \<Rightarrow> e = ZeroDivisionError \<and> min_similarity tm = 0
   | Inr results \<Rightarrow> \<forall>m \<in> set results. min_similarity tm \<le> quality m"
proof -
  from execute_query_cases [of tm X unit_source source_langs target_langs]
  show ?thesis
  proof (elim disjE conjE exE)
    assume "min_similarity tm = 0"
      "execute_query X tm unit_source source_langs target_langs = Inl ZeroDivisionError"
    then show ?thesis by (simp add: translate_unit_def)
  next
    fix rows
    assume q: "execute_query X tm unit_source source_langs target_langs = Inr rows"
    have "set (slice_upto (max_candidates tm)
                 (sort_reverse quality (results_loop tm unit_source rows)))
            \<subseteq> set (results_loop tm unit_source rows)"
      using set_slice_upto [of "max_candidates tm"
          "sort_reverse quality (results_loop tm unit_source rows)"]
      by (simp only: set_sort_reverse)
    then show ?thesis
      using q results_loop_threshold by (auto simp: translate_unit_def Let_def)
  qed
qed


theorem translate_unit_threshold_witness:
  "case translate_unit example_externals hello_tmdb ''Hello world'' (Lang ''en'') (Lang ''fr'') of
     Inl e \<Rightarrow> False
   | Inr results \<Rightarrow>
       results \<noteq> [] \<and> (\<forall>m \<in> set results. min_similarity hello_tmdb \<le> quality m)"
  using translate_unit_threshold
          [where X = example_externals and tm = hello_tmdb and unit_source = "''Hello world''"
             and source_langs = "Lang ''en''" and target_langs = "Lang ''fr''"]
  by (simp add: hello_tmdb_eval model_defs example_defs Let_def)

text \<open>
  C6. For a non-negative \<open>max_candidates\<close>, whatever the store and the query, the list
  that \<^verbatim>\<open>translate_unit\<close> returns has at most \<open>max_candidates\<close> entries and is sorted by
  non-increasing quality, and the entries of any one quality are an initial part of the
  scored rows of that quality in the order in which the cursor yielded them: ties keep
  the retrieval order. (The only other outcome is the \<^verbatim>\<open>ZeroDivisionError\<close> of a zero
  \<open>min_similarity\<close>.)
\<close>

theorem translate_unit_ranked:
  assumes "0 \<le> max_candidates tm"
  shows "case translate_unit X tm unit_source source_langs target_langs of
     Inl e \<Rightarrow> e = ZeroDivisionError \<and> min_similarity tm = 0
   | Inr results \<Rightarrow>
       int (length results) \<le> max_candidates tm \<and>
       sorted_wrt (\<lambda>a b. quality b \<le> quality a) results \<and>
       (\<forall>rows. execute_query X tm unit_source source_langs target_langs = Inr rows \<longrightarrow>
          (\<forall>q. prefix (filter (\<lambda>m. quality m = q) results)
                  (filter (\<lambda>m. quality m = q) (results_loop tm unit_source rows))))"
proof -
  from execute_query_cases [of tm X unit_source source_langs target_langs]
  show ?thesis
  proof (elim disjE conjE exE)
    assume "min_similarity tm = 0"
      "execute_query X tm unit_source source_langs target_langs = Inl ZeroDivisionError"
    then show ?thesis by (simp add: translate_unit_def)
  next
    fix rows
    assume q: "execute_query X tm unit_source source_langs target_langs = Inr rows"
    define retrieved where "retrieved = results_loop tm unit_source rows"
    define results where
      "results = slice_upto (max_candidates tm) (sort_reverse quality retrieved)"
    have res: "translate_unit X tm unit_source source_langs target_langs = Inr results"
      using q by (simp add: translate_unit_def results_def retrieved_def)
    have len: "int (length results) \<le> max_candidates tm"
      unfolding results_def using assms by (rule length_slice_upto)
    have srt: "sorted_wrt (\<lambda>a b. quality b \<le> quality a) results"
      unfolding results_def by (intro sorted_wrt_slice_upto sort_reverse_sorted)
    have stable: "prefix (filter (\<lambda>m. quality m = k) results)
                    (filter (\<lambda>m. quality m = k) retrieved)" for k
    proof -
      have "prefix (filter (\<lambda>m. quality m = k) results)
              (filter (\<lambda>m. quality m = k) (sort_reverse quality retrieved))"
        unfolding results_def by (intro filter_mono_prefix prefix_slice_upto)
      then show ?thesis by (simp only: sort_reverse_stable)
    qed
    show ?thesis
      using res len srt stable q by (simp add: retrieved_def)
  qed
qed


theorem translate_unit_ranked_witness:
  "0 \<le> max_candidates crowded_tmdb \<and>
   (case translate_unit example_externals crowded_tmdb ''Hello world'' (Lang ''en'')
           (Lang ''fr'') of
      Inl e \<Rightarrow> False
    | Inr results \<Rightarrow>
        map m_target results = [''Bonjour monde'', ''Salut monde'', ''Bonjour le monde''] \<and>
        int (length results) \<le> max_candidates crowded_tmdb \<and>
        sorted_wrt (\<lambda>a b. quality b \<le> quality a) results \<and>
        (\<forall>rows. execute_query example_externals crowded_tmdb ''Hello world'' (Lang ''en'')
                   (Lang ''fr'') = Inr rows \<longrightarrow>
           length rows = 4 \<and>
           (\<forall>q. prefix (filter (\<lambda>m. quality m = q) results)
                   (filter (\<lambda>m. quality m = q)
                      (results_loop crowded_tmdb ''Hello world'' rows)))))"
  using translate_unit_ranked
          [where X = example_externals and tm = crowded_tmdb
             and unit_source = "''Hello world''" and source_langs = "Lang ''en''"
             and target_langs = "Lang ''fr''"]
  by (simp add: crowded_tmdb_eval model_defs example_defs Let_def)


section \<open>Inserting: properties\<close>

lemma select_sid_conflict:
  "sources_conflict db txt ctx lang \<Longrightarrow> select_sid db (Some txt) ctx lang \<noteq> []"
  by (auto simp: sources_conflict_def select_sid_def filter_empty_conv)

lemma source_sid_returns:
  assumes "unit ''source'' = Some (Some txt)" "unit ''context'' = Some ctx"
  shows "\<exists>sid db'. source_sid db unit lang = (Inr sid, db')"
proof (cases "sources_conflict db txt ctx lang")
  case True
  then obtain sid rest where "select_sid db (Some txt) ctx lang = sid # rest"
    using select_sid_conflict by (cases "select_sid db (Some txt) ctx lang") auto
  with True assms show ?thesis
    by (simp add: source_sid_def insert_source_def fetchone_def)
next
  case False
  with assms show ?thesis
    by (simp add: source_sid_def insert_source_def Let_def)
qed

lemma add_target_returns: "\<exists>db'. add_target db sid text lang now = Inr db'"
  by (simp add: add_target_def insert_target_def Let_def split: option.splits)

lemma add_dict_returns:
  assumes "unit ''source'' = Some (Some txt)" "unit ''context'' = Some ctx"
    "unit ''target'' = Some tgt"
  shows "\<exists>tm'. add_dict X tm unit source_lang target_lang commit = (Inr (), tm')"
proof -
  obtain sid db' where s: "source_sid (pending tm) unit (normalize_code X source_lang) = (Inr sid, db')"
    using source_sid_returns [OF assms(1,2)] by blast
  obtain db'' where t: "add_target db' sid tgt (normalize_code X target_lang)
       (time_time X (ticks tm)) = Inr db''"
    using add_target_returns by blast
  show ?thesis
    using s t assms(3) by (simp add: add_dict_def add_dict_try_def)
qed

lemma add_unit_returns:
  assumes "truthy (getsourcelanguage u) \<or> truthy source_lang"
    and "truthy (gettargetlanguage u) \<or> truthy target_lang"
  shows "\<exists>tm'. add_unit X tm u source_lang target_lang commit = (Inr (), tm')"
proof -
  have d: "\<exists>tm'. add_dict X tm
       [''source'' \<mapsto> Some (source u), ''target'' \<mapsto> Some (target u), ''context'' \<mapsto> getcontext u]
       a b commit = (Inr (), tm')" for a b
    using add_dict_returns [of _ "source u" "getcontext u" "Some (target u)"] by simp
  show ?thesis
    using assms d unfolding add_unit_def truthy_def Let_def
    by (auto split: option.splits)
qed


text \<open>
  C9. A unit for which no source language, or no target language, can be resolved (the
  unit's own language is \<^verbatim>\<open>None\<close> or empty and so is the one the caller supplied)
  makes \<^verbatim>\<open>add_unit\<close> raise \<^verbatim>\<open>LanguageError\<close>, and the store is as it was: its
  committed and pending databases are unchanged, so no source row and no target row is
  inserted.
\<close>

theorem add_unit_unresolved_language:
  assumes "(\<not> truthy (getsourcelanguage u) \<and> \<not> truthy source_lang) \<or>
           (\<not> truthy (gettargetlanguage u) \<and> \<not> truthy target_lang)"
  shows "\<exists>msg. add_unit X tm u source_lang target_lang commit = (Inl (LanguageError msg), tm)"
  using assms unfolding add_unit_def truthy_def Let_def
  by (auto split: option.splits)


theorem add_unit_unresolved_language_witness:
  "\<not> truthy (gettargetlanguage plain_unit) \<and> \<not> truthy None \<and>
   (\<exists>msg. add_unit example_externals hello_tmdb plain_unit (Some ''en'') None True =
           (Inl (LanguageError msg), hello_tmdb))"
  using add_unit_unresolved_language
          [where u = plain_unit and source_lang = "Some ''en''" and target_lang = None
             and X = example_externals and tm = hello_tmdb and commit = True]
  by (simp add: truthy_def plain_unit_def)

lemma add_store_loop_filter:
  "add_store_loop X tm units source_lang target_lang count =
   add_units X tm (filter (\<lambda>u. istranslatable u \<and> istranslated u) units)
     source_lang target_lang count"
  by (induction units arbitrary: tm count) (auto split: prod.splits sum.splits)

lemma add_units_count:
  "add_units X tm units source_lang target_lang count = (Inr n, tm') \<Longrightarrow>
   n = count + length units"
proof (induction units arbitrary: tm count)
  case Nil
  then show ?case by simp
next
  case (Cons u units)
  from Cons.prems obtain tm1 where
    "add_units X tm1 units source_lang target_lang (count + 1) = (Inr n, tm')"
    by (auto split: prod.splits sum.splits)
  from Cons.IH [OF this] show ?case by simp
qed

lemma add_units_returns:
  assumes "\<forall>u \<in> set units. (truthy (getsourcelanguage u) \<or> truthy source_lang) \<and>
                             (truthy (gettargetlanguage u) \<or> truthy target_lang)"
  shows "\<exists>tm'. add_units X tm units source_lang target_lang count =
           (Inr (count + length units), tm')"
  using assms
proof (induction units arbitrary: tm count)
  case Nil
  then show ?case by simp
next
  case (Cons u units)
  then obtain tm1 where "add_unit X tm u source_lang target_lang False = (Inr (), tm1)"
    using add_unit_returns [of u source_lang target_lang X tm False] by auto
  moreover obtain tm' where
    "add_units X tm1 units source_lang target_lang (count + 1) =
       (Inr (count + 1 + length units), tm')"
    using Cons by (meson list.set_intros(2))
  ultimately show ?case by simp
qed


text \<open>
  C10. \<^verbatim>\<open>add_store\<close> does what inserting, in order, exactly the units that are both
  translatable and translated does: the other units change neither the outcome nor the
  store. When it returns, the count is the number of units that pass both tests; and it
  does return, with that count, when every such unit has a source and a target language
  of its own or from the caller.
\<close>

theorem add_store_translated_only:
  "add_store X tm store source_lang target_lang commit =
     (case add_units X tm (filter (\<lambda>u. istranslatable u \<and> istranslated u) store)
             source_lang target_lang 0 of
        (Inl e, tm') \<Rightarrow> (Inl e, tm')
      | (Inr count, tm') \<Rightarrow> (Inr count, if commit then commit_tx tm' else tm')) \<and>
   (\<forall>count tm'. add_store X tm store source_lang target_lang commit = (Inr count, tm') \<longrightarrow>
      count = length (filter (\<lambda>u. istranslatable u \<and> istranslated u) store)) \<and>
   ((\<forall>u \<in> set store. istranslatable u \<and> istranslated u \<longrightarrow>
        (truthy (getsourcelanguage u) \<or> truthy source_lang) \<and>
        (truthy (gettargetlanguage u) \<or> truthy target_lang)) \<longrightarrow>
    (\<exists>tm'. add_store X tm store source_lang target_lang commit =
       (Inr (length (filter (\<lambda>u. istranslatable u \<and> istranslated u) store)), tm')))"
proof (intro conjI allI impI)
  show "add_store X tm store source_lang target_lang commit =
     (case add_units X tm (filter (\<lambda>u. istranslatable u \<and> istranslated u) store)
             source_lang target_lang 0 of
        (Inl e, tm') \<Rightarrow> (Inl e, tm')
      | (Inr count, tm') \<Rightarrow> (Inr count, if commit then commit_tx tm' else tm'))"
    by (simp add: add_store_def add_store_loop_filter)
next
  fix count tm'
  assume "add_store X tm store source_lang target_lang commit = (Inr count, tm')"
  then obtain tm1 where
    "add_units X tm (filter (\<lambda>u. istranslatable u \<and> istranslated u) store)
       source_lang target_lang 0 = (Inr count, tm1)"
    by (auto simp: add_store_def add_store_loop_filter split: prod.splits sum.splits)
  from add_units_count [OF this]
  show "count = length (filter (\<lambda>u. istranslatable u \<and> istranslated u) store)" by simp
next
  assume "\<forall>u \<in> set store. istranslatable u \<and> istranslated u \<longrightarrow>
        (truthy (getsourcelanguage u) \<or> truthy source_lang) \<and>
        (truthy (gettargetlanguage u) \<or> truthy target_lang)"
  then have "\<forall>u \<in> set (filter (\<lambda>u. istranslatable u \<and> istranslated u) store).
        (truthy (getsourcelanguage u) \<or> truthy source_lang) \<and>
        (truthy (gettargetlanguage u) \<or> truthy target_lang)"
    by simp
  from add_units_returns [OF this, of X tm 0]
  show "\<exists>tm'. add_store X tm store source_lang target_lang commit =
       (Inr (length (filter (\<lambda>u. istranslatable u \<and> istranslated u) store)), tm')"
    by (auto simp: add_store_def add_store_loop_filter)
qed

theorem add_store_translated_only_witness:
  "add_store example_externals example_tmdb [header_unit, french_unit, untranslated_unit]
     (Some ''en'') None True = (Inr 1, hello_tmdb) \<and>
   length (filter (\<lambda>u. istranslatable u \<and> istranslated u)
             [header_unit, french_unit, untranslated_unit]) = 1 \<and>
   filter (\<lambda>u. istranslatable u \<and> istranslated u)
     [header_unit, french_unit, untranslated_unit] = [french_unit] \<and>
   truthy (Some ''en'') \<and> truthy (gettargetlanguage french_unit)"
  using add_store_translated_only
          [where X = example_externals and tm = example_tmdb
             and store = "[header_unit, french_unit, untranslated_unit]"
             and source_lang = "Some ''en''" and target_lang = None and commit = True]
  by (simp add: hello_tmdb_eval model_defs example_defs Let_def)


section \<open>Duplicates\<close>

lemma add_target_again:
  "add_target db sid text lang early = Inr db1 \<Longrightarrow> add_target db1 sid text lang late = Inr db1"
  by (auto simp: add_target_def insert_target_def targets_conflict_def Let_def
           split: option.splits if_splits)

text \<open>
  C8. Two inserts of the same target, at times \<open>early\<close> and \<open>late\<close>, both succeed; the second
  leaves the database exactly as the first left it, so no timestamp is updated. When the
  triple (source id, text, language) was not in the table before, the table then holds
  exactly one row for it, and that row carries \<open>early\<close>; when it was, neither insert changes
  anything.
\<close>

theorem add_target_twice:
  "\<exists>db1. add_target db sid (Some text) lang early = Inr db1 \<and>
         add_target db1 sid (Some text) lang late = Inr db1 \<and>
         (if targets_conflict db sid text lang then db1 = db
          else filter (\<lambda>r. t_sid r = sid \<and> t_text r = text \<and> t_lang r = lang) (targets db1) =
                 [\<lparr>t_tid = Suc (targets_seq db), t_sid = sid, t_text = text, t_lang = lang,
                   t_time = Some early\<rparr>])"
proof (cases "targets_conflict db sid text lang")
  case True
  then show ?thesis
    by (simp add: add_target_def insert_target_def)
next
  case False
  define db1 where
    "db1 = db\<lparr>targets := targets db @
                  [\<lparr>t_tid = Suc (targets_seq db), t_sid = sid, t_text = text, t_lang = lang,
                    t_time = Some early\<rparr>],
               targets_seq := Suc (targets_seq db)\<rparr>"
  have first: "add_target db sid (Some text) lang early = Inr db1"
    using False by (simp add: add_target_def insert_target_def db1_def Let_def)
  have none: "filter (\<lambda>r. t_sid r = sid \<and> t_text r = text \<and> t_lang r = lang) (targets db) = []"
    using False by (auto simp: targets_conflict_def filter_empty_conv)
  have one: "filter (\<lambda>r. t_sid r = sid \<and> t_text r = text \<and> t_lang r = lang) (targets db1) =
       [\<lparr>t_tid = Suc (targets_seq db), t_sid = sid, t_text = text, t_lang = lang,
         t_time = Some early\<rparr>]"
    using none by (simp add: db1_def)
  show ?thesis
    using False first add_target_again [OF first] one by simp
qed

theorem add_target_twice_witness:
  "\<not> targets_conflict (pending hello_tmdb) 1 ''Salut monde'' ''fr'' \<and>
   (\<exists>db1. add_target (pending hello_tmdb) 1 (Some ''Salut monde'') ''fr'' 1700000060 = Inr db1 \<and>
          add_target db1 1 (Some ''Salut monde'') ''fr'' 1700000120 = Inr db1 \<and>
          filter (\<lambda>r. t_sid r = 1 \<and> t_text r = ''Salut monde'' \<and> t_lang r = ''fr'') (targets db1) =
            [\<lparr>t_tid = 2, t_sid = 1, t_text = ''Salut monde'', t_lang = ''fr'',
              t_time = Some 1700000060\<rparr>])"
  using add_target_twice
          [of "pending hello_tmdb" 1 "''Salut monde''" "''fr''" 1700000060 1700000120]
  by (simp add: hello_tmdb_eval targets_conflict_def example_tmdb_def numeral_2_eq_2)

text \<open>
  The same at the level of \<^verbatim>\<open>add_dict\<close>, for a unit whose context is a string: a
  source that is looked up or inserted once is found again under the same id, and a
  second \<^verbatim>\<open>add_dict\<close> of the unit changes nothing but the clock.
\<close>

lemma source_sid_again:
  assumes "unit ''context'' = Some (Some ctx)"
    and "source_sid db unit lang = (Inr sid, db1)"
  shows "source_sid db1 unit lang = (Inr sid, db1)"
proof -
  from assms(2) obtain stext where src: "unit ''source'' = Some (Some stext)"
    by (auto simp: source_sid_def split: option.splits)
  show ?thesis
  proof (cases "sources_conflict db stext (Some ctx) lang")
    case True
    with assms src have "db1 = db"
      by (auto simp: source_sid_def insert_source_def split: option.splits)
    with assms(2) show ?thesis by simp
  next
    case False
    then have none:
      "filter (\<lambda>r. s_text r = stext \<and> s_context r = Some ctx \<and> s_lang r = lang) (sources db) = []"
      by (auto simp: sources_conflict_def filter_empty_conv)
    from False assms src have sid: "sid = Suc (sources_seq db)"
      and db1: "db1 = db\<lparr>sources := sources db @
                   [\<lparr>s_sid = Suc (sources_seq db), s_text = stext, s_context = Some ctx,
                     s_lang = lang, s_length = int (length stext)\<rparr>],
                 sources_seq := Suc (sources_seq db)\<rparr>"
      by (auto simp: source_sid_def insert_source_def Let_def)
    have conflict: "sources_conflict db1 stext (Some ctx) lang"
      by (simp add: db1 sources_conflict_def)
    have "select_sid db1 (Some stext) (Some ctx) lang = [sid]"
      using none by (simp add: select_sid_def db1 sid eq_commute [of stext])
    with conflict assms(1) src show ?thesis
      by (simp add: source_sid_def insert_source_def fetchone_def)
  qed
qed

lemma add_dict_again:
  assumes "unit ''context'' = Some (Some ctx)"
    and "add_dict X tm unit source_lang target_lang commit = (Inr (), tm1)"
  shows "add_dict X tm1 unit source_lang target_lang commit =
           (Inr (), tm1\<lparr>ticks := Suc (ticks tm1)\<rparr>)"
proof -
  define sl where "sl = normalize_code X source_lang"
  define tl' where "tl' = normalize_code X target_lang"
  from assms(2) obtain tm' where
    try1: "add_dict_try X tm unit sl tl' = (Inr (), tm')"
    and tm1: "tm1 = (if commit then commit_tx tm' else tm')"
    by (auto simp: add_dict_def sl_def tl'_def split: prod.splits sum.splits)
  from try1 obtain sid db target db' where
    s: "source_sid (pending tm) unit sl = (Inr sid, db)"
    and t: "unit ''target'' = Some target"
    and a: "add_target db sid target tl' (time_time X (ticks tm)) = Inr db'"
    and tm': "tm' = tm\<lparr>pending := db', ticks := Suc (ticks tm)\<rparr>"
    by (auto simp: add_dict_try_def split: prod.splits sum.splits option.splits)
  have p1: "pending tm1 = db'"
    by (simp add: tm1 tm' commit_tx_def)
  have s': "source_sid db' unit sl = (Inr sid, db')"
  proof -
    have "source_sid db unit sl = (Inr sid, db)"
      by (rule source_sid_again [OF assms(1) s])
    moreover have "sources db' = sources db" "sources_seq db' = sources_seq db"
      using a by (auto simp: add_target_def insert_target_def Let_def
                       split: option.splits if_splits sum.splits)
    moreover from assms(1) s obtain stext where "unit ''source'' = Some (Some stext)"
      by (auto simp: source_sid_def split: option.splits)
    moreover have "sources_conflict db stext (Some ctx) sl"
      if "unit ''source'' = Some (Some stext)" for stext
    proof (rule ccontr)
      assume "\<not> sources_conflict db stext (Some ctx) sl"
      with \<open>source_sid db unit sl = (Inr sid, db)\<close> that assms(1)
      have "db = db\<lparr>sources := sources db @
                   [\<lparr>s_sid = Suc (sources_seq db), s_text = stext, s_context = Some ctx,
                     s_lang = sl, s_length = int (length stext)\<rparr>],
                 sources_seq := Suc (sources_seq db)\<rparr>"
        by (auto simp: source_sid_def insert_source_def Let_def)
      then have "sources_seq db = Suc (sources_seq db)"
        by (metis database.select_convs(3) database.surjective database.update_convs(1)
              database.update_convs(3))
      then show False by simp
    qed
    ultimately show ?thesis
      using assms(1)
      by (auto simp: source_sid_def insert_source_def sources_conflict_def select_sid_def
               split: option.splits)
  qed
  have a': "add_target db' sid target tl' (time_time X (ticks tm1)) = Inr db'"
    by (rule add_target_again [OF a])
  have "add_dict_try X tm1 unit sl tl' = (Inr (), tm1\<lparr>ticks := Suc (ticks tm1)\<rparr>)"
    using s' t a' p1 by (simp add: add_dict_try_def)
  moreover have "(if commit then commit_tx (tm1\<lparr>ticks := Suc (ticks tm1)\<rparr>)
                  else tm1\<lparr>ticks := Suc (ticks tm1)\<rparr>) = tm1\<lparr>ticks := Suc (ticks tm1)\<rparr>"
    by (simp add: tm1 tm' commit_tx_def)
  ultimately show ?thesis
    by (simp add: add_dict_def sl_def tl'_def)
qed


text \<open>
  C5, at a unit whose context is \<^verbatim>\<open>None\<close>. The unique index does not see two rows
  with a \<^verbatim>\<open>NULL\<close> context as equal: the second \<^verbatim>\<open>add_dict\<close> of the same unit
  raises no \<^verbatim>\<open>IntegrityError\<close>, inserts a second source row under a new id and, with
  it, a second target row.
\<close>

theorem add_dict_null_context_twice:
  "(case add_dict example_externals example_tmdb null_context_unit ''en'' ''fr'' True of
      (first, tm1) \<Rightarrow>
        first = Inr () \<and>
        map s_sid (sources (committed tm1)) = [1] \<and>
        fst (source_sid (pending tm1) null_context_unit ''en'') = Inr 2 \<and>
        (case add_dict example_externals tm1 null_context_unit ''en'' ''fr'' True of
           (second, tm2) \<Rightarrow>
             second = Inr () \<and>
             map (\<lambda>r. (s_sid r, s_text r, s_context r, s_lang r)) (sources (committed tm2)) =
               [(1, ''Hello world'', None, ''en''), (2, ''Hello world'', None, ''en'')] \<and>
             map (\<lambda>r. (t_sid r, t_text r, t_lang r)) (targets (committed tm2)) =
               [(1, ''Bonjour monde'', ''fr''), (2, ''Bonjour monde'', ''fr'')]))"
  by (simp add: model_defs example_defs Let_def numeral_2_eq_2)

section \<open>Batches\<close>

text \<open>
  C2, at a batch whose second unit fails. \<^verbatim>\<open>add_list\<close> calls \<^verbatim>\<open>add_dict\<close> with
  \<^verbatim>\<open>commit=False\<close>, whose handler then skips the rollback, and has no handler of its
  own: when the second dictionary lacks its \<^verbatim>\<open>target\<close> key, the \<^verbatim>\<open>KeyError\<close>
  leaves the rows of the first unit (and the source row of the second) in the open
  transaction. Nothing is committed yet, but nothing is rolled back: a query on the same
  connection returns the first pair, and the commit of the next \<^verbatim>\<open>add_dict\<close> writes
  the rows of the failed batch to the store. \<^verbatim>\<open>add_store\<close> does the same when a unit
  raises \<^verbatim>\<open>LanguageError\<close>.
\<close>

theorem add_list_failure_not_rolled_back:
  "(case add_list example_externals example_tmdb [hello_unit, no_target_unit] ''en'' ''fr'' True of
      (outcome, tm') \<Rightarrow>
        outcome = Inl (KeyError ''target'') \<and>
        committed tm' = empty_database \<and>
        map s_text (sources (pending tm')) = [''Hello world'', ''Goodbye''] \<and>
        map t_text (targets (pending tm')) = [''Bonjour monde''] \<and>
        translate_unit example_externals tm' ''Hello world'' (Lang ''en'') (Lang ''fr'') =
          Inr [\<lparr>m_source = ''Hello world'', m_target = ''Bonjour monde'', m_context = Some [],
                quality = 100\<rparr>] \<and>
        (case add_dict example_externals tm' goodbye_unit ''en'' ''fr'' True of
           (next_outcome, tm'') \<Rightarrow>
             next_outcome = Inr () \<and>
             map s_text (sources (committed tm'')) = [''Hello world'', ''Goodbye''] \<and>
             map t_text (targets (committed tm'')) = [''Bonjour monde'', ''Au revoir''])) \<and>
   (case add_store example_externals example_tmdb [french_unit, plain_unit] (Some ''en'') None
           True of
      (outcome, tm') \<Rightarrow>
        outcome = Inl (LanguageError ''undefined target language'') \<and>
        committed tm' = empty_database \<and>
        map s_text (sources (pending tm')) = [''Hello world''] \<and>
        map t_text (targets (pending tm')) = [''Bonjour monde''])"
  by (simp add: model_defs example_defs Let_def)

section \<open>Languages of a query\<close>

lemma candidate_rows_langs:
  "(stext, ttext, ctx, slang, tlang) \<in>
     set (candidate_rows X db source_langs target_langs minlen maxlen search) \<Longrightarrow>
   slang = source_langs \<and> tlang = target_langs"
  by (auto simp: candidate_rows_def)

lemma execute_query_langs:
  assumes "execute_query X tm unit_source source_langs target_langs = Inr rows"
    and "(stext, ttext, ctx, slang, tlang) \<in> set rows"
  shows "slang = normalize_langs X source_langs \<and> tlang = normalize_langs X target_langs"
  using assms
  by (auto simp: execute_query_def Let_def split: sum.splits if_splits
           dest: candidate_rows_langs)

text \<open>
  A list of two or more languages is joined into a string that is longer than each of
  its normalised members: no row stored under the normalised code of a member is among
  the rows of the query, whatever \<^verbatim>\<open>normalize_code\<close> does.
\<close>

lemma length_join_ge:
  "w \<in> set ws \<Longrightarrow> length w \<le> length (join sep ws)"
  by (induction sep ws rule: join.induct) auto

lemma length_join_gt:
  assumes "w \<in> set ws" "2 \<le> length ws" "sep \<noteq> []"
  shows "length w < length (join sep ws)"
proof -
  from assms(2) obtain a b rest where ws: "ws = a # b # rest"
    by (cases ws; cases "tl ws") auto
  show ?thesis
  proof (cases "w = a")
    case True
    with assms(3) show ?thesis by (cases sep) (auto simp: ws)
  next
    case False
    with assms(1) ws have "w \<in> set (b # rest)" by simp
    from length_join_ge [OF this, of sep] assms(3) show ?thesis
      by (cases sep) (auto simp: ws)
  qed
qed

lemma execute_query_list_member:
  assumes "execute_query X tm unit_source (Langs codes) target_langs = Inr rows"
    and "2 \<le> length codes" and "code \<in> set codes"
  shows "(stext, ttext, ctx, normalize_code X code, tlang) \<notin> set rows"
proof
  assume "(stext, ttext, ctx, normalize_code X code, tlang) \<in> set rows"
  from execute_query_langs [OF assms(1) this]
  have "normalize_code X code = join '','' (map (normalize_code X) codes)"
    by (simp add: normalize_langs_def)
  moreover have "length (normalize_code X code) < length (join '','' (map (normalize_code X) codes))"
    by (rule length_join_gt) (use assms in auto)
  ultimately show False by simp
qed

text \<open>
  C1, at the list \<^verbatim>\<open>["en", "de"]\<close>. The list is joined into the one string
  \<^verbatim>\<open>"en,de"\<close> and bound to the single parameter of \<^verbatim>\<open>IN (?)\<close>, so a row matches
  only when its source language is that whole string: the stored English pair, which the
  query with \<^verbatim>\<open>"en"\<close> alone returns, is not returned for the list.
\<close>

theorem translate_unit_language_list:
  "translate_unit example_externals hello_tmdb ''Hello world'' (Lang ''en'') (Lang ''fr'') =
     Inr [\<lparr>m_source = ''Hello world'', m_target = ''Bonjour monde'', m_context = Some [],
           quality = 100\<rparr>] \<and>
   normalize_langs example_externals (Langs [''en'', ''de'']) = ''en,de'' \<and>
   execute_query example_externals hello_tmdb ''Hello world'' (Langs [''en'', ''de''])
     (Lang ''fr'') = Inr [] \<and>
   translate_unit example_externals hello_tmdb ''Hello world'' (Langs [''en'', ''de''])
     (Lang ''fr'') = Inr []"
  by (simp add: hello_tmdb_eval model_defs example_defs Let_def)




end
